theory Spec2Isabelle
  imports Complex_Main
begin

section \<open>JavaScript values used by the scoring engine\<close>

text \<open>
  JavaScript numbers are modelled as exact rationals (\<open>rat\<close>): every constant of the
  weight tables is a short decimal, and the engine only adds, multiplies, divides by
  non-zero constants, compares and rounds. \<open>Math.round\<close> rounds to the nearest integer
  with ties going up, \<open>Math.ceil\<close> is the ceiling.
\<close>

definition js_round :: "rat \<Rightarrow> rat" where
  "js_round x = of_int \<lfloor>x + 1 / 2\<rfloor>"

definition js_ceil :: "rat \<Rightarrow> rat" where
  "js_ceil x = of_int \<lceil>x\<rceil>"

text \<open>The status tag of a factor: \<open>'pass' | 'warning' | 'fail' | 'unknown'\<close>.\<close>

datatype status = Pass | Warning | Fail | Unknown

text \<open>
  A factor record as pushed to \<open>factors\<close>. The \<open>details\<close> display string is left out:
  no scoring or recommendation code reads it.
\<close>

record factor =
  name :: string
  status :: status
  points :: rat
  maxPoints :: rat
  critical :: bool

text \<open>The \<open>{ score, factor }\<close> object returned by the per-factor scorers.\<close>

record scored =
  score :: rat
  factor :: factor

text \<open>Truthiness of an optional string: \<open>undefined\<close>, \<open>null\<close> and \<open>''\<close> are falsy.\<close>

fun truthy_str :: "string option \<Rightarrow> bool" where
  "truthy_str None = False"
| "truthy_str (Some s) = (s \<noteq> [])"

section \<open>Strings\<close>

text \<open>
  Strings are lists of 8-bit characters; the model covers ASCII text. \<open>toLowerCase\<close>
  lowers the letters A-Z, \<open>trim\<close> strips the ASCII white space characters.
\<close>

definition lower_char :: "char \<Rightarrow> char" where
  "lower_char c =
     (case map_of (zip ''ABCDEFGHIJKLMNOPQRSTUVWXYZ'' ''abcdefghijklmnopqrstuvwxyz'') c of
        None \<Rightarrow> c | Some d \<Rightarrow> d)"

definition toLowerCase :: "string \<Rightarrow> string" where
  "toLowerCase s = map lower_char s"

definition is_space :: "char \<Rightarrow> bool" where
  "is_space c = (c \<in> set [CHR '' '', CHR 0x09, CHR 0x0A, CHR 0x0B, CHR 0x0C, CHR 0x0D])"


fun startsWith :: "string \<Rightarrow> string \<Rightarrow> bool" where
  "startsWith s [] = True"
| "startsWith [] (c # t) = False"
| "startsWith (a # s) (c # t) = (a = c \<and> startsWith s t)"

fun str_includes :: "string \<Rightarrow> string \<Rightarrow> bool" where
  "str_includes [] t = (t = [])"
| "str_includes (a # s) t = (startsWith (a # s) t \<or> str_includes s t)"

definition endsWith :: "string \<Rightarrow> string \<Rightarrow> bool" where
  "endsWith s t = startsWith (rev s) (rev t)"

section \<open>Regular expressions\<close>

text \<open>
  A backtracking matcher with the priorities of the JavaScript engine: alternatives are
  tried left to right, quantifiers are greedy, and the first success wins. \<open>rmatch\<close>
  returns, in that order, every way of matching a prefix of the input: the rest of the
  input and the text of capture group 1, if the group took part. The flag is \<open>/i\<close>.
  \<open>Cls\<close> and \<open>NCls\<close> are a character class and its negation, \<open>Eos\<close> is \<open>$\<close>,
  \<open>Rep lo hi\<close> is \<open>{lo,hi}\<close>, \<open>Grp\<close> is the capturing group.
\<close>

datatype regex =
    Chr char
  | Cls "char list"
  | NCls "char list"
  | Eps
  | Eos
  | Seq regex regex
  | Alt regex regex
  | Opt regex
  | Star regex
  | Rep nat nat regex
  | Grp regex

type_synonym mres = "(string \<times> string option) list"

definition keep :: "string option \<Rightarrow> string \<times> string option \<Rightarrow> string \<times> string option" where
  "keep c p = (fst p, case snd p of None \<Rightarrow> c | Some g \<Rightarrow> Some g)"

fun star_iter :: "(string \<Rightarrow> mres) \<Rightarrow> nat \<Rightarrow> string \<Rightarrow> mres" where
  "star_iter f 0 s = [(s, None)]"
| "star_iter f (Suc n) s =
     concat (map (\<lambda>p. if length (fst p) < length s
                          then map (keep (snd p)) (star_iter f n (fst p)) else []) (f s))
     @ [(s, None)]"

fun rep_iter :: "(string \<Rightarrow> mres) \<Rightarrow> nat \<Rightarrow> nat \<Rightarrow> string \<Rightarrow> mres" where
  "rep_iter f lo 0 s = (if lo = 0 then [(s, None)] else [])"
| "rep_iter f lo (Suc n) s =
     concat (map (\<lambda>p. map (keep (snd p)) (rep_iter f (lo - 1) n (fst p))) (f s))
     @ (if lo = 0 then [(s, None)] else [])"

fun rmatch :: "bool \<Rightarrow> regex \<Rightarrow> string \<Rightarrow> mres" where
  "rmatch ci (Chr c) s = (case s of [] \<Rightarrow> []
      | x # xs \<Rightarrow> if (if ci then lower_char x = lower_char c else x = c) then [(xs, None)] else [])"
| "rmatch ci (Cls cs) s = (case s of [] \<Rightarrow> []
      | x # xs \<Rightarrow> if x \<in> set cs \<or> (ci \<and> lower_char x \<in> set cs) then [(xs, None)] else [])"
| "rmatch ci (NCls cs) s = (case s of [] \<Rightarrow> []
      | x # xs \<Rightarrow> if x \<in> set cs \<or> (ci \<and> lower_char x \<in> set cs) then [] else [(xs, None)])"
| "rmatch ci Eps s = [(s, None)]"
| "rmatch ci Eos s = (if s = [] then [(s, None)] else [])"
| "rmatch ci (Seq r1 r2) s =
     concat (map (\<lambda>p. map (keep (snd p)) (rmatch ci r2 (fst p))) (rmatch ci r1 s))"
| "rmatch ci (Alt r1 r2) s = rmatch ci r1 s @ rmatch ci r2 s"
| "rmatch ci (Opt r) s = rmatch ci r s @ [(s, None)]"
| "rmatch ci (Star r) s = star_iter (\<lambda>t. rmatch ci r t) (length s) s"
| "rmatch ci (Rep lo hi r) s = rep_iter (\<lambda>t. rmatch ci r t) lo hi s"
| "rmatch ci (Grp r) s =
     map (\<lambda>p. (fst p, Some (take (length s - length (fst p)) s))) (rmatch ci r s)"


definition Lit :: "string \<Rightarrow> regex" where
  "Lit s = foldr (\<lambda>c r. Seq (Chr c) r) s Eps"

fun seqs :: "regex list \<Rightarrow> regex" where
  "seqs [] = Eps"
| "seqs [r] = r"
| "seqs (r # rs) = Seq r (seqs rs)"

fun alts :: "regex list \<Rightarrow> regex" where
  "alts [] = Cls []"
| "alts [r] = r"
| "alts (r # rs) = Alt r (alts rs)"




text \<open>
  \<open>String.prototype.match\<close> and \<open>RegExp.prototype.exec\<close> without the \<open>g\<close> flag:
  the leftmost match, as the pair of \<open>match[0]\<close> and \<open>match[1]\<close>.
\<close>

fun re_exec :: "bool \<Rightarrow> regex \<Rightarrow> string \<Rightarrow> (string \<times> string option) option" where
  "re_exec ci r [] = (case rmatch ci r [] of [] \<Rightarrow> None | p # ps \<Rightarrow> Some ([], snd p))"
| "re_exec ci r (x # xs) = (case rmatch ci r (x # xs) of
       [] \<Rightarrow> re_exec ci r xs
     | p # ps \<Rightarrow> Some (take (length (x # xs) - length (fst p)) (x # xs), snd p))"

definition re_test :: "bool \<Rightarrow> regex \<Rightarrow> string \<Rightarrow> bool" where
  "re_test ci r s = (re_exec ci r s \<noteq> None)"

section \<open>Warranty detection (\<open>extractProductDetails\<close>)\<close>







section \<open>AI Crawler Access (\<open>ScoringEngine.scoreAICrawlerAccess\<close>)\<close>




section \<open>Weights (\<open>weights.js\<close>)\<close>

text \<open>\<open>CATEGORY_WEIGHTS\<close>, as decimal fractions.\<close>

definition CW_structuredData :: rat where "CW_structuredData = 23 / 100"
definition CW_protocolMeta :: rat where "CW_protocolMeta = 18 / 100"
definition CW_contentQuality :: rat where "CW_contentQuality = 23 / 100"
definition CW_contentStructure :: rat where "CW_contentStructure = 13 / 100"
definition CW_authorityTrust :: rat where "CW_authorityTrust = 13 / 100"
definition CW_aiDiscoverability :: rat where "CW_aiDiscoverability = 10 / 100"

lemmas CW_defs = CW_structuredData_def CW_protocolMeta_def CW_contentQuality_def
  CW_contentStructure_def CW_authorityTrust_def CW_aiDiscoverability_def

text \<open>\<open>FACTOR_WEIGHTS.protocolMeta\<close>.\<close>

definition FW_ogImage :: rat where "FW_ogImage = 20"
definition FW_ogImageFormat :: rat where "FW_ogImageFormat = 15"
definition FW_ogTitle :: rat where "FW_ogTitle = 10"
definition FW_ogDescription :: rat where "FW_ogDescription = 10"
definition FW_ogType :: rat where "FW_ogType = 5"
definition FW_twitterCard :: rat where "FW_twitterCard = 10"
definition FW_twitterImage :: rat where "FW_twitterImage = 5"
definition FW_canonical :: rat where "FW_canonical = 10"
definition FW_metaDescription :: rat where "FW_metaDescription = 10"
definition FW_robotsAllowsIndex :: rat where "FW_robotsAllowsIndex = 5"

lemmas FW_protocolMeta_defs = FW_ogImage_def FW_ogImageFormat_def FW_ogTitle_def
  FW_ogDescription_def FW_ogType_def FW_twitterCard_def FW_twitterImage_def
  FW_canonical_def FW_metaDescription_def FW_robotsAllowsIndex_def

text \<open>
  A category result \<open>{ score, maxScore, factors, weight, categoryName }\<close>; \<open>maxScore\<close>
  is the constant 100 in every category.
\<close>

record category_score =
  cat_score :: rat
  factors :: "factor list"
  weight :: rat
  categoryName :: string

definition fac :: "string \<Rightarrow> status \<Rightarrow> rat \<Rightarrow> rat \<Rightarrow> bool \<Rightarrow> factor" where
  "fac n st p mp cr = \<lparr> name = n, status = st, points = p, maxPoints = mp, critical = cr \<rparr>"

section \<open>Protocol and meta compliance (\<open>ScoringEngine.scoreProtocolMeta\<close>)\<close>

text \<open>
  The fields of \<open>extractedData.metaTags\<close> that the engine reads, flattened:
  \<open>og_image\<close> is \<open>openGraph.image\<close>, and so on. The engine reads every nested object
  through \<open>?.\<close> or \<open>|| {}\<close>, so an absent object behaves as one whose fields are all
  absent: \<open>None\<close> for strings, \<open>False\<close> for flags.
\<close>

record meta_tags =
  og_image :: "string option"
  og_title :: "string option"
  og_description :: "string option"
  og_type :: "string option"
  twitter_card :: "string option"
  twitter_image :: "string option"
  canonical_present :: bool
  canonical_matchesCurrentUrl :: bool
  canonical_isProductCanonical :: bool
  standard_description :: "string option"
  robots_isBlocked :: bool

text \<open>The network-verified image fact (\<open>imageVerification\<close>), \<open>None\<close> when unverified.\<close>

record image_verification =
  isWebP :: bool
  isValidFormat :: bool

definition str_len :: "string option \<Rightarrow> nat" where
  "str_len s = (case s of None \<Rightarrow> 0 | Some t \<Rightarrow> length t)"

text \<open>The regular expression \<open>/\.(jpe?g|png|gif)(\?|$)/\<close>.\<close>

definition imageExtension :: regex where
  "imageExtension =
     seqs [Chr CHR ''.'',
           alts [seqs [Lit ''jp'', Opt (Chr CHR ''e''), Chr CHR ''g''], Lit ''png'', Lit ''gif''],
           alts [Chr CHR ''?'', Eos]]"

text \<open>
  The og:image format block of \<open>scoreProtocolMeta\<close>: the pair of
  \<open>imageFormatScore\<close> and \<open>imageFormatStatus\<close>.
\<close>

definition imageFormat :: "image_verification option \<Rightarrow> string option \<Rightarrow> rat \<times> status" where
  "imageFormat imageVerification img =
    (case imageVerification of
       Some v \<Rightarrow>
         if isWebP v then (0, Fail)
         else if isValidFormat v then (FW_ogImageFormat, Pass)
         else (FW_ogImageFormat / 2, Warning)
     | None \<Rightarrow>
         if truthy_str img then
           (let url = toLowerCase (case img of Some u \<Rightarrow> u | None \<Rightarrow> []) in
            if endsWith url ''.webp'' \<or> str_includes url ''.webp?'' then (0, Fail)
            else if re_test False imageExtension url then (FW_ogImageFormat, Pass)
            else (0, Unknown))
         else (0, Unknown))"

definition scoreProtocolMeta :: "meta_tags \<Rightarrow> image_verification option \<Rightarrow> category_score" where
  "scoreProtocolMeta data imageVerification =
    (let hasOgImage = truthy_str (og_image data);
         ogImageScore = (if hasOgImage then FW_ogImage else 0);
         imageFormatScore = fst (imageFormat imageVerification (og_image data));
         imageFormatStatus = snd (imageFormat imageVerification (og_image data));
         hasOgTitle = truthy_str (og_title data);
         titleLength = str_len (og_title data);
         titleOptimal = (0 < titleLength \<and> titleLength \<le> 60);
         ogTitleScore = (if hasOgTitle then (if titleOptimal then FW_ogTitle
                                             else FW_ogTitle * (7 / 10)) else 0);
         hasOgDesc = truthy_str (og_description data);
         descLength = str_len (og_description data);
         descOptimal = (100 \<le> descLength \<and> descLength \<le> 200);
         ogDescScore = (if hasOgDesc then (if descOptimal then FW_ogDescription
                                           else FW_ogDescription * (7 / 10)) else 0);
         isProductType = (og_type data = Some ''product'' \<or> og_type data = Some ''og:product'');
         ogTypeScore = (if isProductType then FW_ogType else 0);
         hasTwitterCard = truthy_str (twitter_card data);
         isLargeImage = (twitter_card data = Some ''summary_large_image'');
         twitterScore = (if hasTwitterCard then (if isLargeImage then FW_twitterCard
                                                 else FW_twitterCard * (7 / 10)) else 0);
         hasTwitterImage = truthy_str (twitter_image data);
         twitterImageScore = (if hasTwitterImage then FW_twitterImage else 0);
         hasCanonical = canonical_present data;
         canonicalIsValid = (canonical_matchesCurrentUrl data \<or> canonical_isProductCanonical data);
         canonicalScore = (if hasCanonical then (if canonicalIsValid then FW_canonical
                                                 else FW_canonical * (7 / 10)) else 0);
         hasMetaDesc = truthy_str (standard_description data);
         metaDescLength = str_len (standard_description data);
         metaDescOptimal = (120 \<le> metaDescLength \<and> metaDescLength \<le> 160);
         metaDescScore = (if hasMetaDesc then (if metaDescOptimal then FW_metaDescription
                                               else FW_metaDescription * (7 / 10)) else 0);
         isBlocked = robots_isBlocked data;
         robotsScore = (if isBlocked then 0 else FW_robotsAllowsIndex)
     in \<lparr> cat_score = ogImageScore + imageFormatScore + ogTitleScore + ogDescScore
                 + ogTypeScore + twitterScore + twitterImageScore + canonicalScore
                 + metaDescScore + robotsScore,
          factors =
            [ fac ''og:image Present'' (if hasOgImage then Pass else Fail)
                ogImageScore FW_ogImage True,
              fac ''og:image Format'' imageFormatStatus imageFormatScore FW_ogImageFormat True,
              fac ''og:title'' (if hasOgTitle then (if titleOptimal then Pass else Warning) else Fail)
                ogTitleScore FW_ogTitle False,
              fac ''og:description''
                (if hasOgDesc then (if descOptimal then Pass else Warning) else Fail)
                ogDescScore FW_ogDescription False,
              fac ''og:type = product'' (if isProductType then Pass else Fail)
                ogTypeScore FW_ogType False,
              fac ''Twitter Card''
                (if hasTwitterCard then (if isLargeImage then Pass else Warning) else Fail)
                twitterScore FW_twitterCard False,
              fac ''Twitter Image'' (if hasTwitterImage then Pass else Fail)
                twitterImageScore FW_twitterImage False,
              fac ''Canonical URL''
                (if hasCanonical then (if canonicalIsValid then Pass else Warning) else Fail)
                canonicalScore FW_canonical False,
              fac ''Meta Description''
                (if hasMetaDesc then (if metaDescOptimal then Pass else Warning) else Fail)
                metaDescScore FW_metaDescription False,
              fac ''Robots Allows Indexing'' (if isBlocked then Fail else Pass)
                robotsScore FW_robotsAllowsIndex isBlocked ],
          weight = CW_protocolMeta,
          categoryName = ''Protocol & Meta Compliance'' \<rparr>)"

section \<open>JavaScript values from JSON-LD\<close>

text \<open>
  A value as \<open>JSON.parse\<close> returns it, extended with \<open>undefined\<close>, \<open>NaN\<close> and the two
  infinities, which property reads and \<open>parseFloat\<close> produce. Numbers are exact
  rationals. An object is its list of key-value pairs (keys distinct).
\<close>

datatype jv =
    JUndef
  | JNull
  | JBool bool
  | JNum rat
  | JNaN
  | JInf bool
  | JStr string
  | JArr "jv list"
  | JObj "(string \<times> jv) list"

fun truthy :: "jv \<Rightarrow> bool" where
  "truthy JUndef = False"
| "truthy JNull = False"
| "truthy (JBool b) = b"
| "truthy (JNum r) = (r \<noteq> 0)"
| "truthy JNaN = False"
| "truthy (JInf b) = True"
| "truthy (JStr s) = (s \<noteq> [])"
| "truthy (JArr xs) = True"
| "truthy (JObj kvs) = True"

definition jor :: "jv \<Rightarrow> jv \<Rightarrow> jv" where
  "jor a b = (if truthy a then a else b)"

text \<open>
  \<open>v[k]\<close> on a value that is neither \<open>null\<close> nor \<open>undefined\<close>; it never raises.
  \<open>idx0\<close> is \<open>v[0]\<close>, \<open>is_object\<close> is \<open>typeof v === 'object'\<close>, \<open>oget\<close> is \<open>v?.[k]\<close>.
\<close>

fun jget :: "jv \<Rightarrow> string \<Rightarrow> jv" where
  "jget (JObj kvs) k = (case map_of kvs k of None \<Rightarrow> JUndef | Some v \<Rightarrow> v)"
| "jget (JArr xs) k = (if k = ''length'' then JNum (of_nat (length xs)) else JUndef)"
| "jget (JStr s) k = (if k = ''length'' then JNum (of_nat (length s)) else JUndef)"
| "jget v k = JUndef"

fun isArray :: "jv \<Rightarrow> bool" where
  "isArray (JArr xs) = True"
| "isArray v = False"

fun elems :: "jv \<Rightarrow> jv list" where
  "elems (JArr xs) = xs"
| "elems v = []"

fun idx0 :: "jv \<Rightarrow> jv" where
  "idx0 (JArr (x # xs)) = x"
| "idx0 (JStr (c # cs)) = JStr [c]"
| "idx0 v = JUndef"

fun is_object :: "jv \<Rightarrow> bool" where
  "is_object (JObj kvs) = True"
| "is_object (JArr xs) = True"
| "is_object JNull = True"
| "is_object v = False"

fun nullish :: "jv \<Rightarrow> bool" where
  "nullish JUndef = True"
| "nullish JNull = True"
| "nullish v = False"

text \<open>
  \<open>parseInt(v, 10)\<close> and \<open>parseFloat(v)\<close>: the argument is converted to a string and
  the longest numeric prefix is read, after leading white space. A number passes
  through \<open>parseFloat\<close> unchanged and is truncated by \<open>parseInt\<close> (numbers that
  JavaScript prints in exponent notation are outside the model); an array is printed as
  its elements joined by commas, so its first element decides.
\<close>

definition is_digit :: "char \<Rightarrow> bool" where
  "is_digit c = (c \<in> set ''0123456789'')"

definition digit_val :: "char \<Rightarrow> nat" where
  "digit_val c = (case map_of (zip ''0123456789'' [0, 1, 2, 3, 4, 5, 6, 7, 8, 9]) c of
      None \<Rightarrow> 0 | Some d \<Rightarrow> d)"

definition digits_val :: "string \<Rightarrow> nat" where
  "digits_val ds = foldl (\<lambda>a c. 10 * a + digit_val c) 0 ds"

fun strip_sign :: "string \<Rightarrow> bool \<times> string" where
  "strip_sign [] = (False, [])"
| "strip_sign (c # cs) = (if c = CHR ''-'' then (True, cs)
                          else if c = CHR ''+'' then (False, cs) else (False, c # cs))"

definition signed :: "bool \<Rightarrow> rat \<Rightarrow> rat" where
  "signed neg r = (if neg then - r else r)"

definition parseInt_str :: "string \<Rightarrow> jv" where
  "parseInt_str s =
    (let (neg, u) = strip_sign (dropWhile is_space s);
         ds = takeWhile is_digit u
     in if ds = [] then JNaN else JNum (signed neg (of_nat (digits_val ds))))"

definition exponent :: "string \<Rightarrow> int" where
  "exponent t =
    (case t of [] \<Rightarrow> 0
     | c # cs \<Rightarrow>
        if c = CHR ''e'' \<or> c = CHR ''E'' then
          (let (neg, u) = strip_sign cs; ds = takeWhile is_digit u
           in if ds = [] then 0 else (if neg then - int (digits_val ds) else int (digits_val ds)))
        else 0)"

definition parseFloat_str :: "string \<Rightarrow> jv" where
  "parseFloat_str s =
    (let (neg, u) = strip_sign (dropWhile is_space s) in
     if startsWith u ''Infinity'' then JInf (\<not> neg)
     else
      (let ip = takeWhile is_digit u;
           r1 = dropWhile is_digit u;
           fp = (case r1 of [] \<Rightarrow> [] | c # cs \<Rightarrow> if c = CHR ''.'' then takeWhile is_digit cs else []);
           r2 = (case r1 of [] \<Rightarrow> [] | c # cs \<Rightarrow> if c = CHR ''.'' then dropWhile is_digit cs else r1);
           mant = of_nat (digits_val ip) + of_nat (digits_val fp) / 10 ^ length fp
       in if ip = [] \<and> fp = [] then JNaN
          else JNum (signed neg (mant * (if 0 \<le> exponent r2 then 10 ^ nat (exponent r2)
                                         else 1 / 10 ^ nat (- exponent r2))))))"

fun parseFloat :: "jv \<Rightarrow> jv" where
  "parseFloat (JNum r) = JNum r"
| "parseFloat (JInf b) = JInf b"
| "parseFloat (JStr s) = parseFloat_str s"
| "parseFloat (JArr []) = JNaN"
| "parseFloat (JArr (x # xs)) = parseFloat x"
| "parseFloat v = JNaN"

fun parseInt :: "jv \<Rightarrow> jv" where
  "parseInt (JNum r) = JNum (of_int (if 0 \<le> r then \<lfloor>r\<rfloor> else \<lceil>r\<rceil>))"
| "parseInt (JStr s) = parseInt_str s"
| "parseInt (JArr []) = JNaN"
| "parseInt (JArr (x # xs)) = parseInt x"
| "parseInt v = JNaN"


definition oget :: "jv \<Rightarrow> string \<Rightarrow> jv" where
  "oget v k = (if nullish v then JUndef else jget v k)"

text \<open>
  \<open>v > 0\<close> for the \<open>length\<close> of a \<open>hasVariant\<close> value (a number for arrays and
  strings; strings under an own \<open>length\<close> key of an object are read as not positive).
\<close>

definition gt0 :: "jv \<Rightarrow> bool" where
  "gt0 v = (case v of JNum r \<Rightarrow> 0 < r | JInf b \<Rightarrow> b | JBool b \<Rightarrow> b | _ \<Rightarrow> False)"

section \<open>The schema entity set\<close>

record product =
  p_name :: jv
  p_description :: jv
  p_image :: jv
  p_sku :: jv
  p_gtin :: jv
  p_mpn :: jv
  p_brand :: jv
  p_hasOffer :: bool
  p_hasRating :: bool
  p_isProductGroup :: bool
  p_source :: "string option"

record offer =
  o_price :: jv
  o_priceCurrency :: jv
  o_availability :: jv
  o_source :: "string option"

record rating =
  r_ratingValue :: jv
  r_reviewCount :: jv
  r_ratingCount :: jv
  r_bestRating :: jv
  r_source :: "string option"

record review =
  rv_author :: jv
  rv_datePublished :: jv
  rv_reviewBody :: jv
  rv_reviewRating :: "(jv \<times> jv) option"

record faq_question =
  q_question :: jv
  q_answer :: jv
  q_answerLength :: jv

record faq =
  f_questionCount :: nat
  f_questions :: "faq_question list"
  f_source :: "string option"

record crumb =
  c_position :: jv
  c_name :: jv
  c_url :: jv

record breadcrumb =
  b_itemCount :: nat
  b_items :: "crumb list"
  b_source :: "string option"

record org =
  g_name :: jv
  g_logo :: jv
  g_url :: jv
  g_source :: "string option"

record image_object =
  i_url :: jv
  i_caption :: jv
  i_width :: jv
  i_height :: jv

record schemas =
  s_product :: "product option"
  s_offer :: "offer list option"
  s_aggregateRating :: "rating option"
  s_reviews :: "review list"
  s_faq :: "faq option"
  s_breadcrumb :: "breadcrumb option"
  s_organization :: "org option"
  s_brand :: "org option"
  s_images :: "image_object list"

definition empty_schemas :: schemas where
  "empty_schemas = \<lparr> s_product = None, s_offer = None, s_aggregateRating = None,
     s_reviews = [], s_faq = None, s_breadcrumb = None, s_organization = None,
     s_brand = None, s_images = [] \<rparr>"

section \<open>JSON-LD resolution (\<open>categorizeSchemas\<close>)\<close>

definition extractImageUrl :: "jv \<Rightarrow> jv" where
  "extractImageUrl img =
    (if \<not> truthy img then JNull
     else case img of
        JStr s \<Rightarrow> img
      | JArr xs \<Rightarrow> jor (oget (idx0 img) ''url'') (idx0 img)
      | _ \<Rightarrow> jor (jget img ''url'') (jget img ''contentUrl''))"

definition extractBrandName :: "jv \<Rightarrow> jv" where
  "extractBrandName brandData =
    (if \<not> truthy brandData then JNull
     else case brandData of
        JStr s \<Rightarrow> brandData
      | JArr xs \<Rightarrow>
          (case xs of [] \<Rightarrow> JNull
           | first # rest \<Rightarrow> (case first of JStr t \<Rightarrow> first
                               | _ \<Rightarrow> jor (oget first ''name'') JNull))
      | _ \<Rightarrow> jor (jget brandData ''name'') JNull)"

text \<open>
  \<open>(Array.isArray(item['@type']) ? item['@type'][0] : item['@type']).toLowerCase()\<close>:
  \<open>None\<close> is the TypeError raised when the value has no \<open>toLowerCase\<close> method.
\<close>

definition item_type :: "jv \<Rightarrow> string option" where
  "item_type item =
    (let t = jget item ''@type'' in
     case (if isArray t then idx0 t else t) of JStr s \<Rightarrow> Some (toLowerCase s) | _ \<Rightarrow> None)"

fun variant_offers :: "jv list \<Rightarrow> jv" where
  "variant_offers [] = JUndef"
| "variant_offers (variant # vs) =
     (if truthy variant \<and> truthy (jget variant ''offers'') then jget variant ''offers''
      else variant_offers vs)"

definition mk_offer :: "jv \<Rightarrow> offer option" where
  "mk_offer o' = (if nullish o' then None
     else Some \<lparr> o_price = jor (jget o' ''price'') (jget o' ''lowPrice''),
                 o_priceCurrency = jget o' ''priceCurrency'',
                 o_availability = jget o' ''availability'', o_source = None \<rparr>)"

definition nested_org :: "jv \<Rightarrow> org option" where
  "nested_org v =
    (let obj = (if isArray v then idx0 v else v) in
     if truthy obj \<and> is_object obj \<and> truthy (jget obj ''@type'')
     then Some \<lparr> g_name = jor (jget obj ''name'') JNull,
                  g_logo = jor (extractImageUrl (jget obj ''logo'')) JNull,
                  g_url = jor (jget obj ''url'') JNull,
                  g_source = Some ''product-nested'' \<rparr>
     else None)"

definition product_of :: "jv \<Rightarrow> string \<Rightarrow> product" where
  "product_of item ty =
    \<lparr> p_name = jget item ''name'',
      p_description = jget item ''description'',
      p_image = extractImageUrl (jget item ''image''),
      p_sku = jor (jget item ''sku'') (jget item ''productGroupID''),
      p_gtin = jor (jget item ''gtin'') (jor (jget item ''gtin13'') (jor (jget item ''gtin14'')
                 (jor (jget item ''gtin12'') (jget item ''gtin8'')))),
      p_mpn = jget item ''mpn'',
      p_brand = jor (extractBrandName (jget item ''brand''))
                    (extractBrandName (jget item ''manufacturer'')),
      p_hasOffer = (truthy (jget item ''offers'') \<or>
                    (truthy (jget item ''hasVariant'') \<and>
                     gt0 (jget (jget item ''hasVariant'') ''length''))),
      p_hasRating = truthy (jget item ''aggregateRating''),
      p_isProductGroup = (ty = ''productgroup''),
      p_source = None \<rparr>"

definition rating_of :: "jv \<Rightarrow> rating" where
  "rating_of ar =
    \<lparr> r_ratingValue = parseFloat (jget ar ''ratingValue''),
      r_reviewCount = jor (parseInt (jget ar ''reviewCount'')) JNull,
      r_ratingCount = JUndef,
      r_bestRating = jor (parseFloat (jget ar ''bestRating'')) (JNum 5),
      r_source = None \<rparr>"

text \<open>The stages of the Product / ProductGroup branch, in the order of the source.\<close>

definition set_offers :: "jv \<Rightarrow> schemas \<Rightarrow> schemas option" where
  "set_offers item s1 =
    (let hv = jget item ''hasVariant'';
         offersSource =
           (if \<not> truthy (jget item ''offers'') \<and> truthy hv
            then (let found = variant_offers (if isArray hv then elems hv else [hv])
                  in if truthy found then found else jget item ''offers'')
            else jget item ''offers'')
     in if truthy offersSource
        then map_option (\<lambda>l. s1 \<lparr> s_offer := Some l \<rparr>)
               (those (map mk_offer
                  (if isArray offersSource then elems offersSource else [offersSource])))
        else Some s1)"

definition set_rating :: "jv \<Rightarrow> schemas \<Rightarrow> schemas" where
  "set_rating item s2 =
    (if truthy (jget item ''aggregateRating'')
     then s2 \<lparr> s_aggregateRating := Some (rating_of (jget item ''aggregateRating'')) \<rparr>
     else s2)"

definition set_nested_brand :: "jv \<Rightarrow> schemas \<Rightarrow> schemas" where
  "set_nested_brand item s3 =
    (if s_brand s3 = None \<and> truthy (jget item ''brand'')
     then (case nested_org (jget item ''brand'') of
             None \<Rightarrow> s3 | Some b \<Rightarrow> s3 \<lparr> s_brand := Some b \<rparr>)
     else s3)"

definition set_nested_organization :: "jv \<Rightarrow> schemas \<Rightarrow> schemas" where
  "set_nested_organization item s4 =
    (if s_organization s4 = None \<and> truthy (jget item ''manufacturer'')
     then (case nested_org (jget item ''manufacturer'') of
             None \<Rightarrow> s4 | Some g \<Rightarrow> s4 \<lparr> s_organization := Some g \<rparr>)
     else s4)"

definition product_branch :: "jv \<Rightarrow> string \<Rightarrow> schemas \<Rightarrow> schemas option" where
  "product_branch item ty s0 =
    map_option (\<lambda>s2. set_nested_organization item (set_nested_brand item (set_rating item s2)))
      (set_offers item (s0 \<lparr> s_product := Some (product_of item ty) \<rparr>))"

definition mk_question :: "jv \<Rightarrow> faq_question" where
  "mk_question q =
    (let text = oget (jget q ''acceptedAnswer'') ''text'' in
     \<lparr> q_question = jget q ''name'', q_answer = text,
       q_answerLength = jget (jor text (JStr [])) ''length'' \<rparr>)"

definition faq_branch :: "jv \<Rightarrow> schemas \<Rightarrow> schemas option" where
  "faq_branch item s0 =
    (let mainEntity = jor (jget item ''mainEntity'') (JArr []) in
     if \<not> isArray mainEntity \<or> list_ex nullish (elems mainEntity) then None
     else (let questions = filter (\<lambda>e. jget e ''@type'' = JStr ''Question'') (elems mainEntity)
           in Some (s0 \<lparr> s_faq := Some \<lparr> f_questionCount = length questions,
                                          f_questions = map mk_question questions,
                                          f_source = None \<rparr> \<rparr>)))"

definition breadcrumb_branch :: "jv \<Rightarrow> schemas \<Rightarrow> schemas option" where
  "breadcrumb_branch item s0 =
    (let listEl = jor (jget item ''itemListElement'') (JArr []) in
     if \<not> isArray listEl \<or> list_ex nullish (elems listEl) then None
     else Some (s0 \<lparr> s_breadcrumb := Some
            \<lparr> b_itemCount = length (elems listEl),
              b_items = map (\<lambda>el. \<lparr> c_position = jget el ''position'', c_name = jget el ''name'',
                                     c_url = JUndef \<rparr>) (elems listEl),
              b_source = None \<rparr> \<rparr>))"

definition organization_branch :: "jv \<Rightarrow> schemas \<Rightarrow> schemas option" where
  "organization_branch item s0 =
    Some (s0 \<lparr> s_organization := Some \<lparr> g_name = jget item ''name'',
                   g_logo = extractImageUrl (jget item ''logo''),
                   g_url = jget item ''url'', g_source = None \<rparr> \<rparr>)"

text \<open>
  The body of \<open>items.forEach(item => ...)\<close>. \<open>None\<close> is a TypeError, which leaves
  \<open>categorizeSchemas\<close> and \<open>extractStructuredData\<close> uncaught. The four \<open>if (type === ...)\<close>
  statements test one string against four different literals, so at most one applies.
\<close>

definition categorizeItem :: "jv \<Rightarrow> schemas \<Rightarrow> schemas option" where
  "categorizeItem item s0 =
    (if \<not> truthy item \<or> \<not> truthy (jget item ''@type'') then Some s0
     else case item_type item of
        None \<Rightarrow> None
      | Some ty \<Rightarrow>
          if ty = ''product'' \<or> ty = ''productgroup'' then product_branch item ty s0
          else if ty = ''faqpage'' then faq_branch item s0
          else if ty = ''breadcrumblist'' then breadcrumb_branch item s0
          else if ty = ''organization'' then organization_branch item s0
          else Some s0)"

fun categorizeItems :: "jv list \<Rightarrow> schemas \<Rightarrow> schemas option" where
  "categorizeItems [] s0 = Some s0"
| "categorizeItems (item # rest) s0 =
     (case categorizeItem item s0 of None \<Rightarrow> None | Some s1 \<Rightarrow> categorizeItems rest s1)"

definition categorizeSchemas :: "jv \<Rightarrow> schemas \<Rightarrow> schemas option" where
  "categorizeSchemas data s0 =
    (if isArray data then categorizeItems (elems data) s0
     else if nullish data then None
     else if truthy (jget data ''@graph'')
       then (if isArray (jget data ''@graph'')
             then categorizeItems (elems (jget data ''@graph'')) s0 else None)
     else categorizeItems [data] s0)"

section \<open>Microdata resolution (\<open>categorizeMicrodataSchemas\<close>)\<close>

text \<open>
  A microdata item is the object \<open>{ type, properties }\<close> built by
  \<open>extractMicrodataItem\<close>: \<open>type\<close> is a string and every property value is a string or
  another such item.
\<close>

text \<open>\<open>item.type.replace(/^https?:\/\/schema\.org\//, '').toLowerCase()\<close>\<close>

definition microdata_type :: "string \<Rightarrow> string" where
  "microdata_type t =
    toLowerCase (if startsWith t ''https://schema.org/'' then drop 19 t
                 else if startsWith t ''http://schema.org/'' then drop 18 t else t)"

definition md_offer :: "jv \<Rightarrow> offer" where
  "md_offer ps =
    \<lparr> o_price = jor (jor (oget ps ''price'') (oget ps ''lowPrice'')) JNull,
      o_priceCurrency = jor (oget ps ''priceCurrency'') JNull,
      o_availability = jor (oget ps ''availability'') JNull,
      o_source = Some ''microdata'' \<rparr>"

definition md_rating :: "jv \<Rightarrow> rating" where
  "md_rating ps =
    \<lparr> r_ratingValue = jor (parseFloat (oget ps ''ratingValue'')) JNull,
      r_reviewCount = jor (parseInt (oget ps ''reviewCount'')) JNull,
      r_ratingCount = jor (parseInt (oget ps ''ratingCount'')) JNull,
      r_bestRating = jor (parseFloat (oget ps ''bestRating'')) (JNum 5),
      r_source = Some ''microdata'' \<rparr>"

definition md_review :: "jv \<Rightarrow> review" where
  "md_review ps =
    \<lparr> rv_author = jor (jor (oget (oget (oget ps ''author'') ''properties'') ''name'')
                           (oget ps ''author'')) JNull,
      rv_datePublished = jor (oget ps ''datePublished'') JNull,
      rv_reviewBody = jor (jor (oget ps ''reviewBody'') (oget ps ''description'')) JNull,
      rv_reviewRating =
        (if truthy (oget ps ''reviewRating'')
         then Some (jor (parseFloat (oget (jget (jget ps ''reviewRating'') ''properties'')
                                      ''ratingValue'')) JNull,
                    jor (parseFloat (oget (jget (jget ps ''reviewRating'') ''properties'')
                                      ''bestRating'')) (JNum 5))
         else None) \<rparr>"

definition md_org :: "jv \<Rightarrow> org" where
  "md_org ps =
    \<lparr> g_name = jor (jget ps ''name'') JNull,
      g_logo = jor (jor (oget (oget (jget ps ''logo'') ''properties'') ''url'')
                        (jget ps ''logo'')) JNull,
      g_url = jor (jget ps ''url'') JNull,
      g_source = Some ''microdata'' \<rparr>"

definition md_product :: "jv \<Rightarrow> string \<Rightarrow> product" where
  "md_product ps ty =
    \<lparr> p_name = jor (jget ps ''name'') JNull,
      p_description = jor (jget ps ''description'') JNull,
      p_image = jor (jget ps ''image'') JNull,
      p_sku = jor (jor (jget ps ''sku'') (jget ps ''productGroupID'')) JNull,
      p_gtin = JUndef,
      p_mpn = JUndef,
      p_brand = jor (extractBrandName
                       (jor (oget (oget (jget ps ''brand'') ''properties'') ''name'')
                            (jget ps ''brand'')))
                    (extractBrandName (jget ps ''manufacturer'')),
      p_hasOffer = (truthy (jget ps ''offers'') \<or> truthy (jget ps ''hasVariant'')),
      p_hasRating = truthy (jget ps ''aggregateRating''),
      p_isProductGroup = (ty = ''productgroup''),
      p_source = Some ''microdata'' \<rparr>"

definition as_list :: "jv \<Rightarrow> jv list" where
  "as_list v = (if isArray v then elems v else [v])"

definition md_product_branch :: "jv \<Rightarrow> string \<Rightarrow> schemas \<Rightarrow> schemas" where
  "md_product_branch ps ty s0 =
    (let s1 = s0 \<lparr> s_product := Some (md_product ps ty) \<rparr>;
         s2 = (if truthy (jget ps ''offers'') \<and> s_offer s1 = None
               then s1 \<lparr> s_offer := Some (map (\<lambda>o'. md_offer (jget o' ''properties''))
                                              (as_list (jget ps ''offers''))) \<rparr>
               else s1);
         s3 = (if truthy (jget ps ''aggregateRating'') \<and> s_aggregateRating s2 = None
               then s2 \<lparr> s_aggregateRating :=
                           Some (md_rating (jget (jget ps ''aggregateRating'') ''properties'')) \<rparr>
               else s2);
         s4 = (if truthy (jget ps ''review'') \<and> s_reviews s3 = []
               then s3 \<lparr> s_reviews := map (\<lambda>r. md_review (jget r ''properties''))
                                           (as_list (jget ps ''review'')) \<rparr>
               else s3)
     in s4)"

definition md_is_question :: "jv \<Rightarrow> bool" where
  "md_is_question q = (case jget q ''type'' of JStr t \<Rightarrow> str_includes t ''Question'' | _ \<Rightarrow> False)"

definition md_question :: "jv \<Rightarrow> faq_question" where
  "md_question q =
    (let text = oget (oget (oget (jget q ''properties'') ''acceptedAnswer'') ''properties'') ''text''
     in \<lparr> q_question = jor (oget (jget q ''properties'') ''name'') JNull,
          q_answer = jor text JNull,
          q_answerLength = jget (jor text (JStr [])) ''length'' \<rparr>)"

definition md_crumb :: "jv \<Rightarrow> crumb" where
  "md_crumb el =
    \<lparr> c_position = jor (oget (jget el ''properties'') ''position'') JNull,
      c_name = jor (oget (jget el ''properties'') ''name'') JNull,
      c_url = jor (oget (jget el ''properties'') ''item'') JNull \<rparr>"

definition md_image :: "jv \<Rightarrow> image_object" where
  "md_image ps =
    \<lparr> i_url = jor (jor (jget ps ''url'') (jget ps ''contentUrl'')) JNull,
      i_caption = jor (jget ps ''caption'') JNull,
      i_width = jor (jget ps ''width'') JNull,
      i_height = jor (jget ps ''height'') JNull \<rparr>"

text \<open>
  The body of \<open>microdataItems.forEach(item => ...)\<close>. The type is compared with nine
  different literals; only the product test comes with further slots.
\<close>

definition categorizeMicrodataItem :: "jv \<Rightarrow> schemas \<Rightarrow> schemas" where
  "categorizeMicrodataItem item s0 =
    (case jget item ''type'' of
       JStr t \<Rightarrow>
        if t = [] then s0
        else
         (let ty = microdata_type t; ps = jget item ''properties'' in
          if (ty = ''product'' \<or> ty = ''productgroup'') then
            (if s_product s0 = None then md_product_branch ps ty s0 else s0)
          else if ty = ''offer'' then
            (if s_offer s0 = None then s0 \<lparr> s_offer := Some [md_offer ps] \<rparr> else s0)
          else if ty = ''aggregaterating'' then
            (if s_aggregateRating s0 = None
             then s0 \<lparr> s_aggregateRating := Some (md_rating ps) \<rparr> else s0)
          else if ty = ''review'' then s0 \<lparr> s_reviews := s_reviews s0 @ [md_review ps] \<rparr>
          else if ty = ''faqpage'' then
            (if s_faq s0 = None
             then (let questions = as_list (jor (jget ps ''mainEntity'') (JArr []))
                   in s0 \<lparr> s_faq := Some \<lparr> f_questionCount = length questions,
                        f_questions = map md_question (filter md_is_question questions),
                        f_source = Some ''microdata'' \<rparr> \<rparr>)
             else s0)
          else if ty = ''breadcrumblist'' then
            (if s_breadcrumb s0 = None
             then (let elements = as_list (jor (jget ps ''itemListElement'') (JArr []))
                   in s0 \<lparr> s_breadcrumb := Some \<lparr> b_itemCount = length elements,
                        b_items = map md_crumb elements,
                        b_source = Some ''microdata'' \<rparr> \<rparr>)
             else s0)
          else if ty = ''organization'' then
            (if s_organization s0 = None then s0 \<lparr> s_organization := Some (md_org ps) \<rparr> else s0)
          else if ty = ''brand'' then
            (if s_brand s0 = None then s0 \<lparr> s_brand := Some (md_org ps) \<rparr> else s0)
          else if ty = ''imageobject'' then s0 \<lparr> s_images := s_images s0 @ [md_image ps] \<rparr>
          else s0)
     | _ \<Rightarrow> s0)"

definition categorizeMicrodataSchemas :: "jv list \<Rightarrow> schemas \<Rightarrow> schemas" where
  "categorizeMicrodataSchemas microdataItems s0 = fold categorizeMicrodataItem microdataItems s0"

section \<open>\<open>extractStructuredData\<close>\<close>

text \<open>
  The input is what the function reads from the page: the parsed JSON-LD blocks in
  document order (\<open>None\<close> for a block that \<open>JSON.parse\<close> rejected, which is skipped) and
  the top-level microdata items. The result is \<open>results.schemas\<close>, or \<open>None\<close> when a
  TypeError escapes.
\<close>

fun categorizeBlocks :: "jv option list \<Rightarrow> schemas \<Rightarrow> schemas option" where
  "categorizeBlocks [] s0 = Some s0"
| "categorizeBlocks (None # rest) s0 = categorizeBlocks rest s0"
| "categorizeBlocks (Some data # rest) s0 =
     (case categorizeSchemas data s0 of None \<Rightarrow> None | Some s1 \<Rightarrow> categorizeBlocks rest s1)"

definition extractStructuredData :: "jv option list \<Rightarrow> jv list \<Rightarrow> schemas option" where
  "extractStructuredData parsedJsonLd microdata =
    map_option (categorizeMicrodataSchemas microdata) (categorizeBlocks parsedJsonLd empty_schemas)"

section \<open>Properties\<close>

lemma floor_rat_numeral_div [simp]:
  "\<lfloor>(numeral a :: rat) / numeral b\<rfloor> = numeral a div numeral b"
  by (metis floor_divide_of_int_eq of_int_numeral)

lemma js_round_of_int [simp]: "js_round (of_int m) = of_int m"
proof -
  have "\<lfloor>(of_int m :: rat) + 1 / 2\<rfloor> = m" by linarith
  then show ?thesis by (simp add: js_round_def)
qed

lemma js_round_zero [simp]: "js_round 0 = 0"
  using js_round_of_int [of 0] by simp





text \<open>
  Claim C10. URL-based og:image format inference. With no image verification fact and a
  declared og:image URL, the og:image Format factor is decided by the lower-cased URL
  alone: ending in ".webp" or containing ".webp?" gives status fail and 0 points;
  otherwise a match of .jpg/.jpeg/.png/.gif followed by "?" or the end of the URL gives
  status pass and the full maximum; any other URL gives status unknown and 0 points.
\<close>

theorem og_image_format_from_url:
  assumes "og_image d = Some u" and "u \<noteq> []"
  shows "factors (scoreProtocolMeta d None) ! 1 =
     (if endsWith (toLowerCase u) ''.webp'' \<or> str_includes (toLowerCase u) ''.webp?''
        then fac ''og:image Format'' Fail 0 15 True
      else if re_test False imageExtension (toLowerCase u)
        then fac ''og:image Format'' Pass 15 15 True
      else fac ''og:image Format'' Unknown 0 15 True)"
  using assms by (simp add: scoreProtocolMeta_def imageFormat_def Let_def FW_ogImageFormat_def)

theorem og_image_format_from_url_witness:
  "factors (scoreProtocolMeta
      \<lparr> og_image = Some ''https://cdn.example.com/p/Shoe.JPEG?v=2'', og_title = None,
        og_description = None, og_type = None, twitter_card = None, twitter_image = None,
        canonical_present = False, canonical_matchesCurrentUrl = False,
        canonical_isProductCanonical = False, standard_description = None,
        robots_isBlocked = False \<rparr> None) ! 1
     = fac ''og:image Format'' Pass 15 15 True
 \<and> factors (scoreProtocolMeta
      \<lparr> og_image = Some ''https://cdn.example.com/p/shoe.webp?width=800'', og_title = None,
        og_description = None, og_type = None, twitter_card = None, twitter_image = None,
        canonical_present = False, canonical_matchesCurrentUrl = False,
        canonical_isProductCanonical = False, standard_description = None,
        robots_isBlocked = False \<rparr> None) ! 1
     = fac ''og:image Format'' Fail 0 15 True
 \<and> factors (scoreProtocolMeta
      \<lparr> og_image = Some ''https://cdn.example.com/image/12345'', og_title = None,
        og_description = None, og_type = None, twitter_card = None, twitter_image = None,
        canonical_present = False, canonical_matchesCurrentUrl = False,
        canonical_isProductCanonical = False, standard_description = None,
        robots_isBlocked = False \<rparr> None) ! 1
     = fac ''og:image Format'' Unknown 0 15 True"
proof -
  have n1: "''https://cdn.example.com/p/Shoe.JPEG?v=2'' \<noteq> []"
    and n2: "''https://cdn.example.com/p/shoe.webp?width=800'' \<noteq> []"
    and n3: "''https://cdn.example.com/image/12345'' \<noteq> []"
    by simp_all
  have e1: "(if endsWith (toLowerCase ''https://cdn.example.com/p/Shoe.JPEG?v=2'') ''.webp'' \<or>
        str_includes (toLowerCase ''https://cdn.example.com/p/Shoe.JPEG?v=2'') ''.webp?''
        then fac ''og:image Format'' Fail 0 15 True
      else if re_test False imageExtension (toLowerCase ''https://cdn.example.com/p/Shoe.JPEG?v=2'')
        then fac ''og:image Format'' Pass 15 15 True
      else fac ''og:image Format'' Unknown 0 15 True) = fac ''og:image Format'' Pass 15 15 True"
    by code_simp
  have e2: "(if endsWith (toLowerCase ''https://cdn.example.com/p/shoe.webp?width=800'') ''.webp'' \<or>
        str_includes (toLowerCase ''https://cdn.example.com/p/shoe.webp?width=800'') ''.webp?''
        then fac ''og:image Format'' Fail 0 15 True
      else if re_test False imageExtension
          (toLowerCase ''https://cdn.example.com/p/shoe.webp?width=800'')
        then fac ''og:image Format'' Pass 15 15 True
      else fac ''og:image Format'' Unknown 0 15 True) = fac ''og:image Format'' Fail 0 15 True"
    by code_simp
  have e3: "(if endsWith (toLowerCase ''https://cdn.example.com/image/12345'') ''.webp'' \<or>
        str_includes (toLowerCase ''https://cdn.example.com/image/12345'') ''.webp?''
        then fac ''og:image Format'' Fail 0 15 True
      else if re_test False imageExtension (toLowerCase ''https://cdn.example.com/image/12345'')
        then fac ''og:image Format'' Pass 15 15 True
      else fac ''og:image Format'' Unknown 0 15 True) = fac ''og:image Format'' Unknown 0 15 True"
    by code_simp
  show ?thesis
    using og_image_format_from_url [OF _ n1, of "\<lparr> og_image = Some ''https://cdn.example.com/p/Shoe.JPEG?v=2'', og_title = None,
        og_description = None, og_type = None, twitter_card = None, twitter_image = None,
        canonical_present = False, canonical_matchesCurrentUrl = False,
        canonical_isProductCanonical = False, standard_description = None,
        robots_isBlocked = False \<rparr>"]
      og_image_format_from_url [OF _ n2, of "\<lparr> og_image = Some ''https://cdn.example.com/p/shoe.webp?width=800'', og_title = None,
        og_description = None, og_type = None, twitter_card = None, twitter_image = None,
        canonical_present = False, canonical_matchesCurrentUrl = False,
        canonical_isProductCanonical = False, standard_description = None,
        robots_isBlocked = False \<rparr>"]
      og_image_format_from_url [OF _ n3, of "\<lparr> og_image = Some ''https://cdn.example.com/image/12345'', og_title = None,
        og_description = None, og_type = None, twitter_card = None, twitter_image = None,
        canonical_present = False, canonical_matchesCurrentUrl = False,
        canonical_isProductCanonical = False, standard_description = None,
        robots_isBlocked = False \<rparr>"]
    unfolding e1 e2 e3 by simp
qed

subsection \<open>Structured-data resolution\<close>











text \<open>
  Claim C3 (the code does not do this). A block whose ProductGroup has
  \<open>aggregateRating = {"@id": "#r"}\<close> next to an AggregateRating node with that id and
  \<open>ratingValue\<close> 4.5: \<open>categorizeSchemas\<close> builds no index of ids, reads \<open>ratingValue\<close>
  from the reference object itself and stores \<open>NaN\<close>; the sibling node is never read.
\<close>

theorem id_reference_not_resolved:
  "map_option (\<lambda>s. map_option r_ratingValue (s_aggregateRating s))
     (extractStructuredData
        [Some (JObj [(''@graph'', JArr
           [JObj [(''@type'', JStr ''ProductGroup''), (''name'', JStr ''Trail Shoe''),
                  (''aggregateRating'', JObj [(''@id'', JStr ''#r'')])],
            JObj [(''@type'', JStr ''AggregateRating''), (''@id'', JStr ''#r''),
                  (''ratingValue'', JNum (9 / 2)), (''reviewCount'', JNum 12)]])])] [])
   = Some (Some JNaN)"
  by code_simp

text \<open>
  Claim C4 (the code does not do this). A ProductGroup without a top-level GTIN whose
  third variant alone has \<open>gtin\<close> "012345678905": \<open>categorizeSchemas\<close> reads the
  identifiers from the top-level entity only, so the resolved \<open>product.gtin\<close> is
  \<open>undefined\<close>; \<open>hasVariant\<close> is consulted for offers, never for identifiers.
\<close>

theorem variant_gtin_not_read:
  "map_option (\<lambda>s. map_option p_gtin (s_product s))
     (extractStructuredData
        [Some (JObj [(''@type'', JStr ''ProductGroup''), (''name'', JStr ''Trail Shoe''),
           (''productGroupID'', JStr ''TS-1''),
           (''hasVariant'', JArr
              [JObj [(''@type'', JStr ''Product''), (''name'', JStr ''Red'')],
               JObj [(''@type'', JStr ''Product''), (''name'', JStr ''Blue'')],
               JObj [(''@type'', JStr ''Product''), (''name'', JStr ''Green''),
                     (''gtin'', JStr ''012345678905'')]])])] [])
   = Some (Some JUndef)"
  by code_simp




end
